theory Spec2Isabelle
  imports Complex_Main "HOL-Library.Code_Target_Nat"
begin

section \<open>Overlapping-window separation with linear cross-fade\<close>

text \<open>
  A shallow embedding of \<^verbatim>\<open>separate_sources\<close> from the notebook
  \<^verbatim>\<open>hybrid_demucs_tutorial.ipynb\<close>.

  Python floats are modelled as exact rationals: \<^verbatim>\<open>segment\<close>, \<^verbatim>\<open>overlap\<close>,
  \<^verbatim>\<open>overlap_frames\<close> and the samples are of type \<^typ>\<open>rat\<close>, so the rounding error of
  IEEE arithmetic is not part of the model. Python integers are \<^typ>\<open>int\<close>. The
  concrete configurations used below are dyadic rationals on which double-precision arithmetic
  is exact.
\<close>

subsection \<open>Errors\<close>

text \<open>
  \<^verbatim>\<open>RuntimeError\<close> is what the tensor library raises on a bad size; \<^verbatim>\<open>AdapterError\<close>
  stands for any exception leaving \<^verbatim>\<open>model.forward\<close>. The names
  \<^verbatim>\<open>InvalidConfiguration\<close> and \<^verbatim>\<open>GeometryError\<close> come from the error taxonomy of the
  specification; no branch of the code below produces them.
\<close>

datatype error = InvalidConfiguration | GeometryError | AdapterError | RuntimeError

subsection \<open>Tensors\<close>

text \<open>
  A tensor is its shape together with an element function. \<^verbatim>\<open>mix\<close> has shape
  (batch, channels, length); the output of the model and the accumulator \<^verbatim>\<open>final\<close> have
  shape (batch, sources, channels, length).
\<close>

record tensor3 =
  shape3 :: "nat \<times> nat \<times> nat"
  el3 :: "nat \<Rightarrow> nat \<Rightarrow> nat \<Rightarrow> rat"

record tensor4 =
  shape4 :: "nat \<times> nat \<times> nat \<times> nat"
  el4 :: "nat \<Rightarrow> nat \<Rightarrow> nat \<Rightarrow> nat \<Rightarrow> rat"

text \<open>\<^verbatim>\<open>torch.zeros(batch, len(model.sources), channels, length)\<close>\<close>

definition zeros4 :: "nat \<Rightarrow> nat \<Rightarrow> nat \<Rightarrow> nat \<Rightarrow> tensor4" where
  "zeros4 b s c n = \<lparr>shape4 = (b, s, c, n), el4 = (\<lambda>_ _ _ _. 0)\<rparr>"

text \<open>
  Bounds of the slice \<^verbatim>\<open>[start:end]\<close> on an axis of size \<open>n\<close>, as Python normalises them:
  a negative index counts from the end, both indices are clamped to \<open>[0, n]\<close>, and a slice
  whose upper bound lies below its lower bound is empty.
\<close>

definition slice_index :: "nat \<Rightarrow> int \<Rightarrow> int" where
  "slice_index n i = (if i < 0 then max (i + int n) 0 else min i (int n))"

definition slice_bounds :: "nat \<Rightarrow> int \<Rightarrow> int \<Rightarrow> nat \<times> nat" where
  "slice_bounds n a b =
     (nat (slice_index n a), nat (max (slice_index n a) (slice_index n b)))"

text \<open>\<^verbatim>\<open>mix[:, :, start:end]\<close>\<close>

definition slice3 :: "tensor3 \<Rightarrow> int \<Rightarrow> int \<Rightarrow> tensor3" where
  "slice3 t a b =
     (case shape3 t of (bt, ch, n) \<Rightarrow>
        case slice_bounds n a b of (lo, hi) \<Rightarrow>
          \<lparr>shape3 = (bt, ch, hi - lo), el3 = (\<lambda>i j k. el3 t i j (lo + k))\<rparr>)"

text \<open>
  In-place addition broadcasts its right operand: an axis of the operand matches when it has
  the size of the target axis or size one, and a size-one axis is read at index 0.
\<close>

definition broadcasts :: "nat \<Rightarrow> nat \<Rightarrow> bool" where
  "broadcasts d' d = (d' = d \<or> d' = 1)"

definition bidx :: "nat \<Rightarrow> nat \<Rightarrow> nat" where
  "bidx d' i = (if d' = 1 then 0 else i)"

text \<open>\<^verbatim>\<open>final[:, :, :, start:end] += out\<close>\<close>

definition iadd_slice :: "tensor4 \<Rightarrow> int \<Rightarrow> int \<Rightarrow> tensor4 \<Rightarrow> error + tensor4" where
  "iadd_slice final a b out =
     (case shape4 final of (bt, sr, ch, n) \<Rightarrow>
        case slice_bounds n a b of (lo, hi) \<Rightarrow>
          case shape4 out of (bt', sr', ch', n') \<Rightarrow>
            if broadcasts bt' bt \<and> broadcasts sr' sr \<and> broadcasts ch' ch
                 \<and> broadcasts n' (hi - lo)
            then Inr (final\<lparr>el4 := (\<lambda>i j k t.
                   if lo \<le> t \<and> t < hi
                   then el4 final i j k t
                          + el4 out (bidx bt' i) (bidx sr' j) (bidx ch' k) (bidx n' (t - lo))
                   else el4 final i j k t)\<rparr>)
            else Inl RuntimeError)"

subsection \<open>The fade transform\<close>

text \<open>
  Modelled from the spec: \<^verbatim>\<open>torchaudio.transforms.Fade\<close> is imported by the notebook and
  its source is not part of the repository. The specification describes its gain as one that
  ramps linearly from 0 to 1 over the first \<^verbatim>\<open>fade_in_len\<close> frames, holds at 1 in the
  middle, and ramps linearly from 1 to 0 over the last \<^verbatim>\<open>fade_out_len\<close> frames, both
  lengths being non-negative frame counts not larger than the length of the chunk. The ramp
  over \<open>n\<close> frames takes the \<open>n\<close> equally spaced values from 0 to 1, end points included
  (a single value is 0); the gain of a frame is the product of its fade-in and fade-out
  gains; a length outside the stated range is an error.
\<close>

record fade_t =
  fade_in_len :: int
  fade_out_len :: int

definition linspace01 :: "nat \<Rightarrow> nat \<Rightarrow> rat" where
  "linspace01 n i = (if n \<le> 1 then 0 else of_nat i / of_nat (n - 1))"

definition fade_in_gain :: "nat \<Rightarrow> nat \<Rightarrow> rat" where
  "fade_in_gain fl i = (if i < fl then linspace01 fl i else 1)"

definition fade_out_gain :: "nat \<Rightarrow> nat \<Rightarrow> nat \<Rightarrow> rat" where
  "fade_out_gain wl fl i = (if i < wl - fl then 1 else 1 - linspace01 fl (i - (wl - fl)))"

definition fade_gain :: "nat \<Rightarrow> fade_t \<Rightarrow> nat \<Rightarrow> rat" where
  "fade_gain wl f i =
     fade_in_gain (nat (fade_in_len f)) i * fade_out_gain wl (nat (fade_out_len f)) i"

definition fade_forward :: "fade_t \<Rightarrow> tensor4 \<Rightarrow> error + tensor4" where
  "fade_forward f w =
     (case shape4 w of (bt, sr, ch, wl) \<Rightarrow>
        if fade_in_len f < 0 \<or> fade_out_len f < 0
             \<or> int wl < fade_in_len f \<or> int wl < fade_out_len f
        then Inl RuntimeError
        else Inr (w\<lparr>el4 := (\<lambda>i j k t. fade_gain wl f t * el4 w i j k t)\<rparr>))"

subsection \<open>The segmentation loop\<close>

text \<open>\<^verbatim>\<open>int(x)\<close> on a float truncates toward zero.\<close>

definition py_int :: "rat \<Rightarrow> int" where
  "py_int x = (if 0 \<le> x then \<lfloor>x\<rfloor> else \<lceil>x\<rceil>)"

text \<open>
  One entry of the log: the values of \<^verbatim>\<open>start\<close>, \<^verbatim>\<open>end\<close>, \<^verbatim>\<open>fade.fade_in_len\<close> and
  \<^verbatim>\<open>fade.fade_out_len\<close> with which one chunk was processed.
\<close>

record window =
  w_start :: int
  w_end :: int
  w_fade_in :: int
  w_fade_out :: int

text \<open>
  The variables the loop changes, together with the two tensors it can reach: \<^verbatim>\<open>mix\<close>,
  owned by the caller, and \<^verbatim>\<open>final\<close>, allocated by the call. \<open>s_log\<close> is a ghost
  field: the windows processed so far, in order.
\<close>

record state =
  s_start :: int
  s_end :: int
  s_fade :: fade_t
  s_mix :: tensor3
  s_final :: tensor4
  s_log :: "window list"

text \<open>The loop condition \<^verbatim>\<open>start < length - overlap_frames\<close>.\<close>

definition loop_cond :: "int \<Rightarrow> rat \<Rightarrow> state \<Rightarrow> bool" where
  "loop_cond len overlap_frames s \<longleftrightarrow> of_int (s_start s) < of_int len - overlap_frames"

text \<open>
  One pass through the body of the loop. \<open>forward\<close> is \<^verbatim>\<open>model.forward\<close>, a pure function
  of the chunk; \<open>None\<close> is an exception raised by it.
\<close>

definition loop_body ::
  "(tensor3 \<Rightarrow> tensor4 option) \<Rightarrow> int \<Rightarrow> int \<Rightarrow> rat \<Rightarrow> state \<Rightarrow> error + state" where
  "loop_body forward len chunk_len overlap_frames s =
     (case forward (slice3 (s_mix s) (s_start s) (s_end s)) of
        None \<Rightarrow> Inl AdapterError
      | Some out \<Rightarrow>
          (case fade_forward (s_fade s) out of
             Inl e \<Rightarrow> Inl e
           | Inr out' \<Rightarrow>
               (case iadd_slice (s_final s) (s_start s) (s_end s) out' of
                  Inl e \<Rightarrow> Inl e
                | Inr final' \<Rightarrow>
                    let fade1 = (if s_start s = 0
                                 then (s_fade s)\<lparr>fade_in_len := py_int overlap_frames\<rparr>
                                 else s_fade s);
                        start1 = (if s_start s = 0
                                  then s_start s + py_int (of_int chunk_len - overlap_frames)
                                  else s_start s + chunk_len);
                        end1 = s_end s + chunk_len;
                        fade2 = (if end1 \<ge> len then fade1\<lparr>fade_out_len := 0\<rparr> else fade1)
                    in Inr \<lparr>s_start = start1, s_end = end1, s_fade = fade2,
                            s_mix = s_mix s, s_final = final',
                            s_log = s_log s @ [\<lparr>w_start = s_start s, w_end = s_end s,
                                               w_fade_in = fade_in_len (s_fade s),
                                               w_fade_out = fade_out_len (s_fade s)\<rparr>]\<rparr>)))"

text \<open>
  The \<^verbatim>\<open>while\<close> loop. Nothing bounds the number of passes, so the result is an option:
  \<open>None\<close> is a loop that runs forever.
\<close>

partial_function (option) sep_loop ::
  "(tensor3 \<Rightarrow> tensor4 option) \<Rightarrow> int \<Rightarrow> int \<Rightarrow> rat \<Rightarrow> state \<Rightarrow> (error + state) option" where
  "sep_loop forward len chunk_len overlap_frames s =
     (if loop_cond len overlap_frames s
      then (case loop_body forward len chunk_len overlap_frames s of
              Inl e \<Rightarrow> Some (Inl e)
            | Inr s' \<Rightarrow> sep_loop forward len chunk_len overlap_frames s')
      else Some (Inr s))"

declare sep_loop.simps [code]

subsection \<open>The function\<close>

text \<open>
  \<^verbatim>\<open>chunk_len = int(sample_rate * segment * (1 + overlap))\<close> and
  \<^verbatim>\<open>overlap_frames = overlap * sample_rate\<close>; \<^verbatim>\<open>sample_rate\<close> is a global of the notebook,
  here a parameter. \<^verbatim>\<open>model\<close> enters through \<^verbatim>\<open>model.forward\<close> and the number of its
  sources. The \<^verbatim>\<open>device\<close> argument only places tensors and is left out.
\<close>

definition chunk_len_of :: "int \<Rightarrow> rat \<Rightarrow> rat \<Rightarrow> int" where
  "chunk_len_of sample_rate segment overlap =
     py_int (of_int sample_rate * segment * (1 + overlap))"

definition overlap_frames_of :: "int \<Rightarrow> rat \<Rightarrow> rat" where
  "overlap_frames_of sample_rate overlap = overlap * of_int sample_rate"

text \<open>The state in which the loop is entered.\<close>

definition init_state :: "nat \<Rightarrow> int \<Rightarrow> rat \<Rightarrow> rat \<Rightarrow> tensor3 \<Rightarrow> state" where
  "init_state n_sources sample_rate segment overlap mix =
     (case shape3 mix of (batch, channels, len) \<Rightarrow>
        \<lparr>s_start = 0,
         s_end = chunk_len_of sample_rate segment overlap,
         s_fade = \<lparr>fade_in_len = 0,
                   fade_out_len = py_int (overlap_frames_of sample_rate overlap)\<rparr>,
         s_mix = mix,
         s_final = zeros4 batch n_sources channels len,
         s_log = []\<rparr>)"

text \<open>The run of \<^verbatim>\<open>separate_sources\<close> up to the \<^verbatim>\<open>return\<close>, keeping the whole final state.\<close>

definition separate_sources_run ::
  "(tensor3 \<Rightarrow> tensor4 option) \<Rightarrow> nat \<Rightarrow> int \<Rightarrow> rat \<Rightarrow> rat \<Rightarrow> tensor3
     \<Rightarrow> (error + state) option" where
  "separate_sources_run forward n_sources sample_rate segment overlap mix =
     sep_loop forward (int (snd (snd (shape3 mix))))
       (chunk_len_of sample_rate segment overlap)
       (overlap_frames_of sample_rate overlap)
       (init_state n_sources sample_rate segment overlap mix)"

text \<open>\<^verbatim>\<open>separate_sources\<close>: the value returned is \<^verbatim>\<open>final\<close>.\<close>

definition separate_sources ::
  "(tensor3 \<Rightarrow> tensor4 option) \<Rightarrow> nat \<Rightarrow> int \<Rightarrow> rat \<Rightarrow> rat \<Rightarrow> tensor3
     \<Rightarrow> (error + tensor4) option" where
  "separate_sources forward n_sources sample_rate segment overlap mix =
     map_option (map_sum id s_final)
       (separate_sources_run forward n_sources sample_rate segment overlap mix)"

text \<open>The windows a returning call has processed, in order.\<close>

definition windows_of ::
  "(tensor3 \<Rightarrow> tensor4 option) \<Rightarrow> nat \<Rightarrow> int \<Rightarrow> rat \<Rightarrow> rat \<Rightarrow> tensor3
     \<Rightarrow> window list option" where
  "windows_of forward n_sources sample_rate segment overlap mix =
     (case separate_sources_run forward n_sources sample_rate segment overlap mix of
        Some (Inr s) \<Rightarrow> Some (s_log s)
      | _ \<Rightarrow> None)"

subsection \<open>Test inputs\<close>

text \<open>A signal of the given shape whose samples all have the value \<open>v\<close>.\<close>

definition const_signal :: "nat \<Rightarrow> nat \<Rightarrow> nat \<Rightarrow> rat \<Rightarrow> tensor3" where
  "const_signal b c n v = \<lparr>shape3 = (b, c, n), el3 = (\<lambda>_ _ _. v)\<rparr>"

text \<open>The identity adapter: \<open>infer(x) = x\<close>, broadcast to one source.\<close>

definition identity_infer :: "tensor3 \<Rightarrow> tensor4 option" where
  "identity_infer x =
     (case shape3 x of (b, c, n) \<Rightarrow>
        Some \<lparr>shape4 = (b, 1, c, n), el4 = (\<lambda>i j k t. el3 x i k t)\<rparr>)"

subsection \<open>Unfolding the loop\<close>

text \<open>
  The definitions from here on are not part of the program: they describe the loop for the
  proofs. \<open>iter n\<close> runs the body \<open>n\<close> times, stopping at the first error.
\<close>

fun iter :: "(tensor3 \<Rightarrow> tensor4 option) \<Rightarrow> int \<Rightarrow> int \<Rightarrow> rat \<Rightarrow> nat \<Rightarrow> state \<Rightarrow> error + state" where
  "iter fw L C ov 0 s = Inr s"
| "iter fw L C ov (Suc n) s =
     (case loop_body fw L C ov s of Inl e \<Rightarrow> Inl e | Inr s' \<Rightarrow> iter fw L C ov n s')"

text \<open>
  The loop, entered in \<open>s\<close>, leaves after \<open>n\<close> passes in \<open>s'\<close>; or it fails with \<open>e\<close>
  in the pass after the \<open>m\<close>th.
\<close>

definition loop_exits ::
  "(tensor3 \<Rightarrow> tensor4 option) \<Rightarrow> int \<Rightarrow> int \<Rightarrow> rat \<Rightarrow> state \<Rightarrow> nat \<Rightarrow> state \<Rightarrow> bool" where
  "loop_exits fw L C ov s n s' \<longleftrightarrow>
     iter fw L C ov n s = Inr s' \<and> \<not> loop_cond L ov s'
     \<and> (\<forall>m<n. \<forall>sm. iter fw L C ov m s = Inr sm \<longrightarrow> loop_cond L ov sm)"

definition loop_fails ::
  "(tensor3 \<Rightarrow> tensor4 option) \<Rightarrow> int \<Rightarrow> int \<Rightarrow> rat \<Rightarrow> state \<Rightarrow> nat \<Rightarrow> error \<Rightarrow> bool" where
  "loop_fails fw L C ov s m e \<longleftrightarrow>
     (\<exists>sm. iter fw L C ov m s = Inr sm \<and> loop_cond L ov sm \<and> loop_body fw L C ov sm = Inl e)"

definition loop_result_ok ::
  "(tensor3 \<Rightarrow> tensor4 option) \<Rightarrow> int \<Rightarrow> int \<Rightarrow> rat \<Rightarrow> state \<Rightarrow> error + state \<Rightarrow> bool" where
  "loop_result_ok fw L C ov s r =
     (case r of Inr s' \<Rightarrow> \<exists>n. loop_exits fw L C ov s n s'
              | Inl e \<Rightarrow> \<exists>m. loop_fails fw L C ov s m e)"






subsection \<open>Windows on the frame axis\<close>


definition covers :: "nat \<Rightarrow> window \<Rightarrow> nat \<Rightarrow> bool" where
  "covers n w t =
     (case slice_bounds n (w_start w) (w_end w) of (lo, hi) \<Rightarrow> lo \<le> t \<and> t < hi)"

definition window_gain :: "nat \<Rightarrow> window \<Rightarrow> nat \<Rightarrow> rat" where
  "window_gain n w t =
     (case slice_bounds n (w_start w) (w_end w) of (lo, hi) \<Rightarrow>
        fade_gain (hi - lo) \<lparr>fade_in_len = w_fade_in w, fade_out_len = w_fade_out w\<rparr> (t - lo))"

text \<open>The samples of one channel of one source of a tensor, and of the tensor a call returns.\<close>

definition channel_samples :: "tensor4 \<Rightarrow> nat \<Rightarrow> nat \<Rightarrow> nat \<Rightarrow> rat list" where
  "channel_samples F i j k = (case shape4 F of (bt, sr, ch, n) \<Rightarrow> map (el4 F i j k) [0..<n])"

definition returned_samples :: "(error + tensor4) option \<Rightarrow> nat \<Rightarrow> nat \<Rightarrow> nat \<Rightarrow> rat list option" where
  "returned_samples r i j k =
     (case r of Some (Inr F) \<Rightarrow> Some (channel_samples F i j k) | _ \<Rightarrow> None)"

subsection \<open>The accumulator on a constant signal\<close>



section \<open>Properties of the loop\<close>

subsection \<open>One pass\<close>

lemma loop_body_Inr:
  assumes "loop_body fw L C ov s = Inr s'"
  shows "s_start s' = (if s_start s = 0 then py_int (of_int C - ov) else s_start s + C)"
    and "s_end s' = s_end s + C"
    and "s_fade s' = \<lparr>fade_in_len = (if s_start s = 0 then py_int ov else fade_in_len (s_fade s)),
                      fade_out_len = (if s_end s + C \<ge> L then 0 else fade_out_len (s_fade s))\<rparr>"
    and "s_mix s' = s_mix s"
    and "s_log s' = s_log s @ [\<lparr>w_start = s_start s, w_end = s_end s,
                                w_fade_in = fade_in_len (s_fade s),
                                w_fade_out = fade_out_len (s_fade s)\<rparr>]"
  using assms
  by (auto simp: loop_body_def Let_def split: option.splits sum.splits if_splits)

lemma iadd_slice_shape: "iadd_slice f a b out = Inr f' \<Longrightarrow> shape4 f' = shape4 f"
  by (auto simp: iadd_slice_def split: prod.splits if_splits)

lemma loop_body_shape:
  "loop_body fw L C ov s = Inr s' \<Longrightarrow> shape4 (s_final s') = shape4 (s_final s)"
  by (auto simp: loop_body_def Let_def iadd_slice_shape split: option.splits sum.splits)


subsection \<open>The result of the loop as a number of passes\<close>

lemma loop_exits_0: "\<not> loop_cond L ov s \<Longrightarrow> loop_exits fw L C ov s 0 s"
  by (simp add: loop_exits_def)

lemma loop_exits_Suc:
  assumes c: "loop_cond L ov s" and b: "loop_body fw L C ov s = Inr s1"
    and e: "loop_exits fw L C ov s1 n s'"
  shows "loop_exits fw L C ov s (Suc n) s'"
proof -
  have "\<forall>m<Suc n. \<forall>sm. iter fw L C ov m s = Inr sm \<longrightarrow> loop_cond L ov sm"
  proof (intro allI impI)
    fix m sm assume m: "m < Suc n" "iter fw L C ov m s = Inr sm"
    show "loop_cond L ov sm"
    proof (cases m)
      case 0
      with m c show ?thesis by simp
    next
      case (Suc m')
      with m b e show ?thesis by (simp add: loop_exits_def)
    qed
  qed
  with b e show ?thesis by (simp add: loop_exits_def)
qed

lemma loop_fails_0:
  "loop_cond L ov s \<Longrightarrow> loop_body fw L C ov s = Inl e \<Longrightarrow> loop_fails fw L C ov s 0 e"
  by (simp add: loop_fails_def)

lemma loop_fails_Suc:
  "loop_body fw L C ov s = Inr s1 \<Longrightarrow> loop_fails fw L C ov s1 m e
     \<Longrightarrow> loop_fails fw L C ov s (Suc m) e"
  by (simp add: loop_fails_def)

lemma sep_loop_result:
  assumes "sep_loop fw L C ov s = Some r"
  shows "loop_result_ok fw L C ov s r"
proof (rule sep_loop.raw_induct[where P = loop_result_ok, OF _ assms])
  fix f fw L C ov s r
  assume IH: "\<And>fw L C ov s r. f fw L C ov s = Some r \<Longrightarrow> loop_result_ok fw L C ov s r"
    and eq: "(if loop_cond L ov s
      then case loop_body fw L C ov s of
           Inl e \<Rightarrow> Some (Inl e)
           | Inr s' \<Rightarrow> f fw L C ov s'
      else Some (Inr s)) = Some r"
  show "loop_result_ok fw L C ov s r"
  proof (cases "loop_cond L ov s")
    case False
    with eq have "r = Inr s" by simp
    with loop_exits_0[OF False] show ?thesis
      by (auto simp: loop_result_ok_def)
  next
    case True
    show ?thesis
    proof (cases "loop_body fw L C ov s")
      case (Inl e)
      with True eq have "r = Inl e" by simp
      with loop_fails_0[OF True Inl] show ?thesis
        by (auto simp: loop_result_ok_def)
    next
      case (Inr s1)
      with True eq have "f fw L C ov s1 = Some r" by simp
      from IH[OF this] have ok: "loop_result_ok fw L C ov s1 r" .
      show ?thesis
      proof (cases r)
        case (Inl e)
        with ok obtain m where "loop_fails fw L C ov s1 m e"
          by (auto simp: loop_result_ok_def)
        from loop_fails_Suc[OF Inr this] Inl show ?thesis
          by (auto simp: loop_result_ok_def)
      next
        case r: (Inr s')
        with ok obtain n where "loop_exits fw L C ov s1 n s'"
          by (auto simp: loop_result_ok_def)
        from loop_exits_Suc[OF True Inr this] r show ?thesis
          by (auto simp: loop_result_ok_def)
      qed
    qed
  qed
qed

lemma loop_body_error:
  "loop_body fw L C ov s = Inl e \<Longrightarrow> e = AdapterError \<or> e = RuntimeError"
  by (auto simp: loop_body_def fade_forward_def iadd_slice_def Let_def
      split: option.splits sum.splits prod.splits if_splits)

lemma sep_loop_error:
  assumes "sep_loop fw L C ov s = Some (Inl e)"
  shows "e = AdapterError \<or> e = RuntimeError"
proof -
  from sep_loop_result[OF assms] obtain m where "loop_fails fw L C ov s m e"
    by (auto simp: loop_result_ok_def)
  then show ?thesis by (auto simp: loop_fails_def dest: loop_body_error)
qed

lemma iter_Suc_back:
  "iter fw L C ov (Suc n) s =
     (case iter fw L C ov n s of Inl e \<Rightarrow> Inl e | Inr s' \<Rightarrow> loop_body fw L C ov s')"
proof (induction n arbitrary: s)
  case 0
  show ?case by (simp split: sum.splits)
next
  case (Suc n)
  show ?case
  proof (cases "loop_body fw L C ov s")
    case (Inl e)
    then show ?thesis by simp
  next
    case (Inr s1)
    have "iter fw L C ov (Suc (Suc n)) s = iter fw L C ov (Suc n) s1"
      by (simp only: iter.simps(2)[of fw L C ov "Suc n" s] Inr sum.case)
    also have "\<dots> = (case iter fw L C ov n s1 of Inl e \<Rightarrow> Inl e
                       | Inr s' \<Rightarrow> loop_body fw L C ov s')"
      by (rule Suc.IH)
    also have "iter fw L C ov n s1 = iter fw L C ov (Suc n) s"
      by (simp only: iter.simps(2)[of fw L C ov n s] Inr sum.case)
    finally show ?thesis .
  qed
qed

lemma iter_Suc_Inr:
  "iter fw L C ov (Suc n) s = Inr s' \<Longrightarrow>
     \<exists>sn. iter fw L C ov n s = Inr sn \<and> loop_body fw L C ov sn = Inr s'"
  by (auto simp only: iter_Suc_back split: sum.splits)






subsection \<open>The log, the input and the shape of the accumulator\<close>

lemma iter_log_append:
  "iter fw L C ov n s = Inr s' \<Longrightarrow> \<exists>ws. s_log s' = s_log s @ ws \<and> length ws = n"
proof (induction n arbitrary: s')
  case 0
  then show ?case by simp
next
  case (Suc n)
  from iter_Suc_Inr[OF Suc.prems] obtain sn where
    sn: "iter fw L C ov n s = Inr sn" "loop_body fw L C ov sn = Inr s'" by blast
  from Suc.IH[OF sn(1)] obtain ws where "s_log sn = s_log s @ ws" "length ws = n" by blast
  with loop_body_Inr(5)[OF sn(2)] show ?case by simp
qed


lemma iter_frame:
  "iter fw L C ov n s = Inr s' \<Longrightarrow>
     s_mix s' = s_mix s \<and> shape4 (s_final s') = shape4 (s_final s)"
proof (induction n arbitrary: s')
  case 0
  then show ?case by simp
next
  case (Suc n)
  from iter_Suc_Inr[OF Suc.prems] obtain sn where
    sn: "iter fw L C ov n s = Inr sn" "loop_body fw L C ov sn = Inr s'" by blast
  from Suc.IH[OF sn(1)] loop_body_Inr(4)[OF sn(2)] loop_body_shape[OF sn(2)]
  show ?case by simp
qed

lemma run_exits:
  assumes "separate_sources_run fw ns R seg ov mix = Some (Inr s')"
  shows "\<exists>n. loop_exits fw (int (snd (snd (shape3 mix)))) (chunk_len_of R seg ov)
               (overlap_frames_of R ov) (init_state ns R seg ov mix) n s'"
  using sep_loop_result[OF assms[unfolded separate_sources_run_def]]
  by (simp add: loop_result_ok_def)

lemma windows_of_Some:
  "windows_of fw ns R seg ov mix = Some ws \<longleftrightarrow>
     (\<exists>s'. separate_sources_run fw ns R seg ov mix = Some (Inr s') \<and> s_log s' = ws)"
  by (auto simp: windows_of_def split: option.splits sum.splits)

lemma init_state_simps:
  "s_start (init_state ns R seg ov mix) = 0"
  "s_end (init_state ns R seg ov mix) = chunk_len_of R seg ov"
  "s_fade (init_state ns R seg ov mix)
     = \<lparr>fade_in_len = 0, fade_out_len = py_int (overlap_frames_of R ov)\<rparr>"
  "s_mix (init_state ns R seg ov mix) = mix"
  "s_log (init_state ns R seg ov mix) = []"
  "shape3 mix = (b, ch, n) \<Longrightarrow> s_final (init_state ns R seg ov mix) = zeros4 b ns ch n"
  by (simp_all add: init_state_def split: prod.splits)


lemma py_int_nonneg: "0 \<le> x \<Longrightarrow> py_int x = \<lfloor>x\<rfloor>"
  by (simp add: py_int_def)

subsection \<open>The call as a whole\<close>

lemma run_no_window:
  assumes "of_nat (snd (snd (shape3 mix))) \<le> overlap_frames_of R ov"
  shows "separate_sources_run fw ns R seg ov mix = Some (Inr (init_state ns R seg ov mix))"
proof -
  have "\<not> loop_cond (int (snd (snd (shape3 mix)))) (overlap_frames_of R ov)
          (init_state ns R seg ov mix)"
    using assms by (simp add: loop_cond_def init_state_simps)
  then show ?thesis
    unfolding separate_sources_run_def by (subst sep_loop.simps) simp
qed

lemma run_frame:
  assumes "separate_sources_run fw ns R seg ov mix = Some (Inr s')"
  shows "s_mix s' = mix"
    and "shape3 mix = (b, ch, n) \<Longrightarrow> shape4 (s_final s') = (b, ns, ch, n)"
proof -
  from run_exits[OF assms] obtain k where
    it: "iter fw (int (snd (snd (shape3 mix)))) (chunk_len_of R seg ov)
           (overlap_frames_of R ov) k (init_state ns R seg ov mix) = Inr s'"
    by (auto simp: loop_exits_def)
  from iter_frame[OF it] show "s_mix s' = mix" by (simp add: init_state_simps)
  assume "shape3 mix = (b, ch, n)"
  with iter_frame[OF it] show "shape4 (s_final s') = (b, ns, ch, n)"
    by (simp add: init_state_simps zeros4_def)
qed

lemma run_empty_log:
  assumes "separate_sources_run fw ns R seg ov mix = Some (Inr s')" and "s_log s' = []"
  shows "s' = init_state ns R seg ov mix"
proof -
  from run_exits[OF assms(1)] obtain k where
    it: "iter fw (int (snd (snd (shape3 mix)))) (chunk_len_of R seg ov)
           (overlap_frames_of R ov) k (init_state ns R seg ov mix) = Inr s'"
    by (auto simp: loop_exits_def)
  from iter_log_append[OF it] assms(2) have "k = 0" by auto
  with it show ?thesis by simp
qed

lemma separate_sources_Inr:
  "separate_sources fw ns R seg ov mix = Some (Inr F) \<longleftrightarrow>
     (\<exists>s'. separate_sources_run fw ns R seg ov mix = Some (Inr s') \<and> s_final s' = F)"
  by (cases "separate_sources_run fw ns R seg ov mix")
     (auto simp: separate_sources_def map_sum_def split: sum.splits)

lemma separate_sources_Inl:
  "separate_sources fw ns R seg ov mix = Some (Inl e) \<longleftrightarrow>
     separate_sources_run fw ns R seg ov mix = Some (Inl e)"
  by (cases "separate_sources_run fw ns R seg ov mix")
     (auto simp: separate_sources_def map_sum_def split: sum.splits)


lemma separate_sources_error:
  assumes "separate_sources fw ns R seg ov mix = Some (Inl e)"
  shows "e = AdapterError \<or> e = RuntimeError"
  using assms sep_loop_error
  unfolding separate_sources_Inl separate_sources_run_def by blast



subsection \<open>The windows of a returning call\<close>
















subsection \<open>Windows when the chunk exceeds the overlap by a frame\<close>




subsection \<open>No window when the first advance is not positive\<close>









subsection \<open>The identity adapter on a constant signal\<close>














section \<open>The claims\<close>

subsection \<open>C7: the derived frame counts\<close>




subsection \<open>C10: the shape of the result\<close>

text \<open>
  C10. For an input of shape (batch, channels, length), whenever the call returns, the tensor
  returned has shape (batch, number of sources, channels, length); when the loop processes no
  window the tensor returned is the all-zero tensor of that shape, not an error; and the loop
  processes no window when the overlap is not negative and the length is at most the fade
  length \<open>V\<close>.
\<close>

theorem C10_result_shape:
  assumes "shape3 mix = (b, ch, n)"
  shows "(\<forall>F. separate_sources fw ns R segment overlap mix = Some (Inr F)
              \<longrightarrow> shape4 F = (b, ns, ch, n))
       \<and> (windows_of fw ns R segment overlap mix = Some []
              \<longrightarrow> separate_sources fw ns R segment overlap mix = Some (Inr (zeros4 b ns ch n)))
       \<and> (0 \<le> overlap_frames_of R overlap \<and> int n \<le> py_int (overlap_frames_of R overlap)
              \<longrightarrow> windows_of fw ns R segment overlap mix = Some [])"
proof (intro conjI allI impI)
  fix F assume "separate_sources fw ns R segment overlap mix = Some (Inr F)"
  then show "shape4 F = (b, ns, ch, n)"
    using run_frame(2)[OF _ assms] by (auto simp: separate_sources_Inr)
next
  assume "windows_of fw ns R segment overlap mix = Some []"
  then obtain s' where run: "separate_sources_run fw ns R segment overlap mix = Some (Inr s')"
    and lg: "s_log s' = []" by (auto simp: windows_of_Some)
  from run_empty_log[OF run lg] run assms
  show "separate_sources fw ns R segment overlap mix = Some (Inr (zeros4 b ns ch n))"
    by (simp add: separate_sources_Inr init_state_simps)
next
  assume h: "0 \<le> overlap_frames_of R overlap \<and> int n \<le> py_int (overlap_frames_of R overlap)"
  then have "of_int (py_int (overlap_frames_of R overlap)) \<le> overlap_frames_of R overlap"
    by (simp add: py_int_nonneg)
  moreover from h have "(of_int (int n) :: rat) \<le> of_int (py_int (overlap_frames_of R overlap))"
    by (simp only: of_int_le_iff)
  ultimately have "of_nat n \<le> overlap_frames_of R overlap" by simp
  with assms have "of_nat (snd (snd (shape3 mix))) \<le> overlap_frames_of R overlap" by simp
  from run_no_window[OF this]
  show "windows_of fw ns R segment overlap mix = Some []"
    by (simp add: windows_of_Some init_state_simps)
qed

text \<open>
  The theorem on a signal of shape (1, 2, 6), where one window is processed, and on a signal
  of shape (1, 2, 3) with \<open>V = 3\<close>, where none is.
\<close>

theorem C10_result_shape_witness:
  "shape3 (const_signal 1 2 6 1) = (1, 2, 6)
   \<and> windows_of identity_infer 1 4 1 (1/2) (const_signal 1 2 6 1)
        = Some [\<lparr>w_start = 0, w_end = 6, w_fade_in = 0, w_fade_out = 2\<rparr>]
   \<and> map_option (map_sum id shape4)
        (separate_sources identity_infer 1 4 1 (1/2) (const_signal 1 2 6 1))
        = Some (Inr (1, 1, 2, 6))
   \<and> shape3 (const_signal 1 2 3 1) = (1, 2, 3)
   \<and> (0::rat) \<le> overlap_frames_of 4 (3/4) \<and> int 3 \<le> py_int (overlap_frames_of 4 (3/4))
   \<and> windows_of identity_infer 1 4 1 (3/4) (const_signal 1 2 3 1) = Some []
   \<and> separate_sources identity_infer 1 4 1 (3/4) (const_signal 1 2 3 1)
        = Some (Inr (zeros4 1 1 2 3))"
proof -
  have sh6: "shape3 (const_signal 1 2 6 1) = (1, 2, 6)"
    and sh3: "shape3 (const_signal 1 2 3 1) = (1, 2, 3)"
    by (simp_all add: const_signal_def)
  have w6: "windows_of identity_infer 1 4 1 (1/2) (const_signal 1 2 6 1)
        = Some [\<lparr>w_start = 0, w_end = 6, w_fade_in = 0, w_fade_out = 2\<rparr>]"
    by code_simp
  then obtain s' where
    run: "separate_sources_run identity_infer 1 4 1 (1/2) (const_signal 1 2 6 1) = Some (Inr s')"
    by (auto simp: windows_of_Some)
  then have r6: "separate_sources identity_infer 1 4 1 (1/2) (const_signal 1 2 6 1)
                   = Some (Inr (s_final s'))"
    by (simp add: separate_sources_Inr)
  with C10_result_shape[OF sh6, of identity_infer 1 4 1 "1/2"]
  have "shape4 (s_final s') = (1, 1, 2, 6)" by blast
  with r6 have a: "map_option (map_sum id shape4)
        (separate_sources identity_infer 1 4 1 (1/2) (const_signal 1 2 6 1))
        = Some (Inr (1, 1, 2, 6))" by simp
  have v: "(0::rat) \<le> overlap_frames_of 4 (3/4) \<and> int 3 \<le> py_int (overlap_frames_of 4 (3/4))"
    by code_simp
  with C10_result_shape[OF sh3, of identity_infer 1 4 1 "3/4"]
  have "windows_of identity_infer 1 4 1 (3/4) (const_signal 1 2 3 1) = Some []
      \<and> separate_sources identity_infer 1 4 1 (3/4) (const_signal 1 2 3 1)
        = Some (Inr (zeros4 1 1 2 3))" by blast
  with sh6 sh3 w6 a v show ?thesis by blast
qed

subsection \<open>C8: signals without a window\<close>

text \<open>
  C8, as amended. No call fails with \<^verbatim>\<open>GeometryError\<close>. On a signal whose length is at most
  \<open>R * overlap\<close> (a zero-length signal when the overlap is not negative, a signal shorter than
  one overlap length) the loop is not entered: whatever the adapter, the call returns the
  all-zero tensor of shape (batch, sources, channels, length) and processes no window.
\<close>

theorem C8_no_window_returns_zeros:
  "separate_sources fw ns R segment overlap mix \<noteq> Some (Inl GeometryError)
   \<and> (shape3 mix = (b, ch, n) \<and> of_nat n \<le> overlap_frames_of R overlap
      \<longrightarrow> separate_sources fw ns R segment overlap mix = Some (Inr (zeros4 b ns ch n))
          \<and> windows_of fw ns R segment overlap mix = Some [])"
proof (intro conjI impI)
  show "separate_sources fw ns R segment overlap mix \<noteq> Some (Inl GeometryError)"
    using separate_sources_error[of fw ns R segment overlap mix GeometryError] by auto
next
  assume h: "shape3 mix = (b, ch, n) \<and> of_nat n \<le> overlap_frames_of R overlap"
  then have "of_nat (snd (snd (shape3 mix))) \<le> overlap_frames_of R overlap" by simp
  from run_no_window[OF this] h
  show "separate_sources fw ns R segment overlap mix = Some (Inr (zeros4 b ns ch n))"
    and "windows_of fw ns R segment overlap mix = Some []"
    by (simp_all add: windows_of_Some separate_sources_Inr init_state_simps)
qed

text \<open>
  The theorem on one frame with \<open>R * overlap = 2\<close>, with an adapter that fails on every call.
\<close>

theorem C8_no_window_returns_zeros_witness:
  "shape3 (const_signal 1 2 1 1) = (1, 2, 1) \<and> (of_nat 1 :: rat) \<le> overlap_frames_of 4 (1/2)
   \<and> separate_sources (\<lambda>x. None) 1 4 1 (1/2) (const_signal 1 2 1 1)
       = Some (Inr (zeros4 1 1 2 1))
   \<and> windows_of (\<lambda>x. None) 1 4 1 (1/2) (const_signal 1 2 1 1) = Some []"
proof -
  have sh: "shape3 (const_signal 1 2 1 1) = (1, 2, 1)" by (simp add: const_signal_def)
  have le: "(of_nat 1 :: rat) \<le> overlap_frames_of 4 (1/2)" by (simp add: overlap_frames_of_def)
  from C8_no_window_returns_zeros[of "\<lambda>x. None" 1 4 1 "1/2" "const_signal 1 2 1 1" 1 2 1] sh le
  show ?thesis by blast
qed

text \<open>
  C8 as stated fails: on a zero-length signal and on a signal of one frame with an overlap
  length of two frames, the call returns the all-zero tensor.
\<close>

theorem C8_geometry_error_counterexample:
  "separate_sources identity_infer 1 4 1 (1/2) (const_signal 1 2 0 1)
     = Some (Inr (zeros4 1 1 2 0))
   \<and> separate_sources identity_infer 1 4 1 (1/2) (const_signal 1 2 0 1)
     \<noteq> Some (Inl GeometryError)
   \<and> separate_sources identity_infer 1 4 1 (1/2) (const_signal 1 2 1 1)
     = Some (Inr (zeros4 1 1 2 1))
   \<and> separate_sources identity_infer 1 4 1 (1/2) (const_signal 1 2 1 1)
     \<noteq> Some (Inl GeometryError)"
proof -
  have sh0: "shape3 (const_signal 1 2 0 1) = (1, 2, 0)"
    and sh1: "shape3 (const_signal 1 2 1 1) = (1, 2, 1)" by (simp_all add: const_signal_def)
  have le0: "(of_nat 0 :: rat) \<le> overlap_frames_of 4 (1/2)"
    and le1: "(of_nat 1 :: rat) \<le> overlap_frames_of 4 (1/2)"
    by (simp_all add: overlap_frames_of_def)
  from run_no_window[of "const_signal 1 2 0 1" 4 "1/2" identity_infer 1 1] sh0 le0
  have a: "separate_sources identity_infer 1 4 1 (1/2) (const_signal 1 2 0 1)
     = Some (Inr (zeros4 1 1 2 0))"
    by (simp add: separate_sources_Inr init_state_simps)
  from run_no_window[of "const_signal 1 2 1 1" 4 "1/2" identity_infer 1 1] sh1 le1
  have b: "separate_sources identity_infer 1 4 1 (1/2) (const_signal 1 2 1 1)
     = Some (Inr (zeros4 1 1 2 1))"
    by (simp add: separate_sources_Inr init_state_simps)
  from a b show ?thesis by simp
qed

subsection \<open>C5: the configuration is not checked\<close>




subsection \<open>C9: the input is not written\<close>



subsection \<open>C1: the length of the windows\<close>




subsection \<open>C4: the fade lengths of a window\<close>




subsection \<open>C6: the windows cover the signal\<close>




subsection \<open>C3: the round trip of a constant signal\<close>




subsection \<open>C2: the gains in an overlap\<close>

text \<open>
  C2, evaluated where it fails. At sample rate 10, segment 1 and overlap 1/4 on 30 frames,
  \<open>R * overlap\<close> is 2.5: the fades are 2 frames long and the second window starts 3 frames
  before the end of the first. Frame 10 lies in the first two windows and in no other; its
  gain is 1 in each of them, 2 in sum, and the identity adapter on a signal of ones returns 2
  at frames 10 and 22. At the sample rate of the notebook, 44100, with segment 10 and overlap
  1/8 on a million frames, \<open>R * overlap\<close> is 5512.5, and at frame 493000, which lies in the
  first two windows only, the gains sum to 5512/5511.
\<close>

theorem C2_gain_sum_at_failing_input:
  "windows_of identity_infer 1 10 1 (1/4) (const_signal 1 1 30 1)
     = Some [\<lparr>w_start = 0, w_end = 12, w_fade_in = 0, w_fade_out = 2\<rparr>,
             \<lparr>w_start = 9, w_end = 24, w_fade_in = 2, w_fade_out = 2\<rparr>,
             \<lparr>w_start = 21, w_end = 36, w_fade_in = 2, w_fade_out = 0\<rparr>]
   \<and> covers 30 \<lparr>w_start = 0, w_end = 12, w_fade_in = 0, w_fade_out = 2\<rparr> 10
   \<and> covers 30 \<lparr>w_start = 9, w_end = 24, w_fade_in = 2, w_fade_out = 2\<rparr> 10
   \<and> \<not> covers 30 \<lparr>w_start = 21, w_end = 36, w_fade_in = 2, w_fade_out = 0\<rparr> 10
   \<and> window_gain 30 \<lparr>w_start = 0, w_end = 12, w_fade_in = 0, w_fade_out = 2\<rparr> 10
       + window_gain 30 \<lparr>w_start = 9, w_end = 24, w_fade_in = 2, w_fade_out = 2\<rparr> 10 = 2
   \<and> returned_samples
        (separate_sources identity_infer 1 10 1 (1/4) (const_signal 1 1 30 1)) 0 0 0
       = Some [1, 1, 1, 1, 1, 1, 1, 1, 1, 1, 2, 1, 1, 1, 1, 1, 1, 1, 1, 1, 1, 1, 2, 1, 1,
               1, 1, 1, 1, 1]
   \<and> windows_of identity_infer 1 44100 10 (1/8) (const_signal 1 2 1000000 1)
     = Some [\<lparr>w_start = 0, w_end = 496125, w_fade_in = 0, w_fade_out = 5512\<rparr>,
             \<lparr>w_start = 490612, w_end = 992250, w_fade_in = 5512, w_fade_out = 5512\<rparr>,
             \<lparr>w_start = 986737, w_end = 1488375, w_fade_in = 5512, w_fade_out = 0\<rparr>]
   \<and> covers 1000000
        \<lparr>w_start = 0, w_end = 496125, w_fade_in = 0, w_fade_out = 5512\<rparr> 493000
   \<and> covers 1000000
        \<lparr>w_start = 490612, w_end = 992250, w_fade_in = 5512, w_fade_out = 5512\<rparr> 493000
   \<and> \<not> covers 1000000
        \<lparr>w_start = 986737, w_end = 1488375, w_fade_in = 5512, w_fade_out = 0\<rparr> 493000
   \<and> window_gain 1000000
        \<lparr>w_start = 0, w_end = 496125, w_fade_in = 0, w_fade_out = 5512\<rparr> 493000
       + window_gain 1000000
        \<lparr>w_start = 490612, w_end = 992250, w_fade_in = 5512, w_fade_out = 5512\<rparr> 493000
       = 5512 / 5511"
  by code_simp

end
